theory Spec2Isabelle
  imports Main
begin

section \<open>Python values\<close>

text \<open>
  A Python \<open>str\<close> is a sequence of Unicode code points, and \<open>len\<close> counts code
  points. Texts are therefore lists of code points; \<open>lit\<close> turns an ASCII literal into
  such a list, and the three symbols of the source outside ASCII are written by their
  code point.
\<close>

type_synonym pystr = "nat list"

definition lit :: "string \<Rightarrow> pystr" where
  "lit s = map of_char s"

text \<open>
  The values \<open>json.loads\<close> returns. A \<open>dict\<close> keeps its keys in insertion order, so
  it is an association list (the keys of a dict are distinct; a lookup takes the first
  pair with the key). A float is held as the text Python's \<open>repr\<close> prints for it
  (\<open>0.0\<close>, \<open>1.5\<close>, \<open>1e+16\<close>, \<open>nan\<close>), which is all the code reads of a float.
\<close>

datatype pyval =
    PNone
  | PBool bool
  | PInt int
  | PFloat pystr
  | PStr pystr
  | PList "pyval list"
  | PDict "(pystr \<times> pyval) list"

text \<open>
  The exceptions the code under study can meet. \<open>json.loads\<close> raises JSONDecodeError
  on a text that is not JSON, ValueError on an integer literal with more digits than
  the limit of conversion (4300 unless configured), and RecursionError on a nesting too
  deep; the operations on the values parsed raise TypeError, AttributeError and
  KeyError. An exception whose message the code can print into a fragment carries the
  message, the text \<open>str(e)\<close>.
\<close>

datatype pyexn =
    JSONDecodeError
  | TypeError
  | AttributeError pystr
  | KeyError
  | IndexError
  | ValueError pystr
  | RecursionError pystr

text \<open>\<open>type(v).__name__\<close>, as it appears in the message of an AttributeError.\<close>

fun type_name :: "pyval \<Rightarrow> pystr" where
  "type_name PNone = lit ''NoneType''"
| "type_name (PBool _) = lit ''bool''"
| "type_name (PInt _) = lit ''int''"
| "type_name (PFloat _) = lit ''float''"
| "type_name (PStr _) = lit ''str''"
| "type_name (PList _) = lit ''list''"
| "type_name (PDict _) = lit ''dict''"

definition no_attribute :: "pyval \<Rightarrow> string \<Rightarrow> pyexn" where
  "no_attribute v a =
     AttributeError ([39] @ type_name v @ [39] @ lit '' object has no attribute '' @ [39]
                     @ lit a @ [39])"

text \<open>Truth value testing: \<open>if v\<close>.\<close>

fun truthy :: "pyval \<Rightarrow> bool" where
  "truthy PNone = False"
| "truthy (PBool b) = b"
| "truthy (PInt i) = (i \<noteq> 0)"
| "truthy (PFloat r) = (r \<noteq> lit ''0.0'' \<and> r \<noteq> lit ''-0.0'')"
| "truthy (PStr s) = (s \<noteq> [])"
| "truthy (PList xs) = (xs \<noteq> [])"
| "truthy (PDict kvs) = (kvs \<noteq> [])"

text \<open>\<open>d.get(k, default)\<close> on a dict: the value stored under the key, else the default.\<close>

definition dict_get :: "(pystr \<times> pyval) list \<Rightarrow> pystr \<Rightarrow> pyval \<Rightarrow> pyval" where
  "dict_get kvs k d = (case map_of kvs k of Some v \<Rightarrow> v | None \<Rightarrow> d)"

text \<open>\<open>v.get(k, default)\<close> on any value: only a dict has the method.\<close>

definition py_get :: "pyval \<Rightarrow> pystr \<Rightarrow> pyval \<Rightarrow> pyexn + pyval" where
  "py_get v k d =
     (case v of PDict kvs \<Rightarrow> Inr (dict_get kvs k d) | _ \<Rightarrow> Inl (no_attribute v ''get''))"

text \<open>
  An f-string field \<open>{v}\<close>: a \<open>str\<close> is inserted as it is. For any other value Python's
  built-in \<open>str\<close> is called; it is a parameter \<open>str_of\<close> of the model. Only the
  decimal digits of a natural number, \<open>str(i)\<close> of a loop index, are written out.
\<close>

definition fmt :: "(pyval \<Rightarrow> pystr) \<Rightarrow> pyval \<Rightarrow> pystr" where
  "fmt str_of v = (case v of PStr s \<Rightarrow> s | _ \<Rightarrow> str_of v)"

text \<open>\<open>str(i)\<close> of a natural number: its decimal digits.\<close>

fun str_nat :: "nat \<Rightarrow> pystr" where
  "str_nat n = (if n < 10 then [48 + n] else str_nat (n div 10) @ [48 + n mod 10])"

declare str_nat.simps [simp del]

text \<open>
  For the worked examples, an instance of \<open>str_of\<close>: \<open>str\<close> on the values without
  parts. The examples render no list and no dict, whose text \<open>str\<close> builds from
  the \<open>repr\<close> of the parts; they stand abbreviated here.
\<close>

fun str_of_atoms :: "pyval \<Rightarrow> pystr" where
  "str_of_atoms PNone = lit ''None''"
| "str_of_atoms (PBool b) = (if b then lit ''True'' else lit ''False'')"
| "str_of_atoms (PInt i) = (if i < 0 then 45 # str_nat (nat (- i)) else str_nat (nat i))"
| "str_of_atoms (PFloat r) = r"
| "str_of_atoms (PStr s) = s"
| "str_of_atoms (PList xs) = lit ''[...]''"
| "str_of_atoms (PDict kvs) = lit ''{...}''"

section \<open>The events of one turn\<close>

text \<open>
  A \<open>step_complete\<close> payload carries step details. Of a tool execution step the code
  reads the names of the tool calls (through \<open>str\<close>) and the tool responses, each a
  name and a content text; the responses are \<open>None\<close> when the attribute is absent.
\<close>

datatype step_details =
    Inference
  | ToolExecution (tool_calls: "pystr list") (tool_responses: "(pystr \<times> pystr) list option")
  | OtherStep

text \<open>
  A payload is a \<open>step_progress\<close> (with the text of its delta, or \<open>None\<close> when the
  delta has no \<open>text\<close>), a \<open>step_complete\<close>, or of another event type.
\<close>

datatype payload =
    StepProgress "pystr option"
  | StepComplete step_details
  | OtherPayload

text \<open>
  An event without a payload is malformed; the code prints the whole response then, so
  a malformed event carries the text \<open>str(response)\<close>.
\<close>

datatype event =
    Malformed pystr
  | Event payload

section \<open>Regular mode\<close>

definition regular_malformed_fragment :: "pystr \<Rightarrow> pystr" where
  "regular_malformed_fragment r = lit ''Error occurred in the Llama Stack Cluster: '' @ r"

definition using_tool_fragment :: "pystr \<Rightarrow> pystr" where
  "using_tool_fragment n =
     lit ''\<newline>\<newline>'' @ [0x1F6E0] @ lit '' :grey[_Using \"'' @ n @ lit ''\" tool:_]\<newline>\<newline>''"

definition no_tool_calls_fragment :: pystr where
  "no_tool_calls_fragment = lit ''No tool_calls present in step_details''"

text \<open>The body of the loop of \<open>_handle_regular_response\<close>: the fragments of one event.\<close>

fun regular_event :: "event \<Rightarrow> pystr list" where
  "regular_event (Malformed r) = [regular_malformed_fragment r]"
| "regular_event (Event (StepProgress (Some t))) = [t]"
| "regular_event (Event (StepProgress None)) = []"
| "regular_event (Event (StepComplete (ToolExecution calls rs))) =
     (case calls of
        n # _ \<Rightarrow> [using_tool_fragment n]
      | [] \<Rightarrow> [no_tool_calls_fragment])"
| "regular_event (Event (StepComplete _)) = []"
| "regular_event (Event OtherPayload) = []"

fun handle_regular_response :: "event list \<Rightarrow> pystr list" where
  "handle_regular_response [] = []"
| "handle_regular_response (e # es) = regular_event e @ handle_regular_response es"

section \<open>ReAct mode: one inference step\<close>

text \<open>
  \<open>json.loads\<close> belongs to Python's library, not to the repository: it is a parameter
  \<open>loads\<close> of the model, a function from a text to the value parsed or to the
  exception raised.
\<close>

type_synonym json_loads = "pystr \<Rightarrow> pyexn + pyval"

text \<open>
  For the worked examples, an instance of \<open>loads\<close>: the table of the JSON texts of an
  example with their values. The other texts the examples parse are not JSON.
\<close>

definition loads_table :: "(pystr \<Rightarrow> pyval option) \<Rightarrow> json_loads" where
  "loads_table m s = (case m s of Some v \<Rightarrow> Inr v | None \<Rightarrow> Inl JSONDecodeError)"

definition react_malformed_fragment :: "pystr \<Rightarrow> pystr" where
  "react_malformed_fragment r =
     lit ''\<newline>\<newline>'' @ [0x1F6A8] @ lit '' :red[_Llama Stack server Error:_]\<newline>''
     @ lit ''The response received is missing an expected `payload` attribute.\<newline>''
     @ lit ''This could indicate a malformed response or an internal issue within the server.\<newline>\<newline>''
     @ lit ''Error details: '' @ r"

definition final_answer_fragment :: "pystr \<Rightarrow> pystr" where
  "final_answer_fragment a = lit ''\<newline>\<newline>'' @ [0x2705] @ lit '' **Final Answer:**\<newline>'' @ a"

definition parse_failure_fragment :: "pystr \<Rightarrow> pystr" where
  "parse_failure_fragment c =
     lit ''\<newline>\<newline>Failed to parse ReAct step content:\<newline>```json\<newline>'' @ c @ lit ''\<newline>```''"

definition process_failure_fragment :: "pystr \<Rightarrow> pystr \<Rightarrow> pystr" where
  "process_failure_fragment m c =
     lit ''\<newline>\<newline>Failed to process ReAct step: '' @ m @ lit ''\<newline>```json\<newline>'' @ c @ lit ''\<newline>```''"

text \<open>
  \<open>str(e)\<close> of an exception. Only an AttributeError, a ValueError or a RecursionError
  reaches a handler that prints its exception into a fragment, so only their messages
  are kept in the model.
\<close>

fun exn_str :: "pyexn \<Rightarrow> pystr" where
  "exn_str (AttributeError m) = m"
| "exn_str (ValueError m) = m"
| "exn_str (RecursionError m) = m"
| "exn_str _ = []"

text \<open>
  The reads at the head of the \<open>try\<close> block of \<open>_process_inference_step\<close>: the text is
  parsed, then \<open>thought\<close>, \<open>action\<close> and \<open>answer\<close> are read with \<open>.get\<close>.
\<close>

definition react_output_answer :: "json_loads \<Rightarrow> pystr \<Rightarrow> pyexn + pyval" where
  "react_output_answer loads current_step_content =
     (case loads current_step_content of
        Inl e \<Rightarrow> Inl e
      | Inr react_output_data \<Rightarrow>
          (case py_get react_output_data (lit ''thought'') PNone of
             Inl e \<Rightarrow> Inl e
           | Inr thought \<Rightarrow>
               (case py_get react_output_data (lit ''action'') PNone of
                  Inl e \<Rightarrow> Inl e
                | Inr action \<Rightarrow> py_get react_output_data (lit ''answer'') PNone)))"

text \<open>The test \<open>answer and answer != "null" and answer is not None\<close>.\<close>

definition answer_given :: "pyval \<Rightarrow> bool" where
  "answer_given answer = (truthy answer \<and> answer \<noteq> PStr (lit ''null'') \<and> answer \<noteq> PNone)"

text \<open>
  \<open>_process_inference_step\<close> is a generator: the model returns the fragments it yields
  and the value it returns, the local \<open>final_answer\<close>. The two \<open>except\<close> clauses are
  the last two cases, in the order of the source.
\<close>

definition process_inference_step ::
  "json_loads \<Rightarrow> (pyval \<Rightarrow> pystr) \<Rightarrow> pystr \<Rightarrow> (pystr \<times> pystr) list \<Rightarrow> pyval \<Rightarrow> pystr list \<times> pyval" where
  "process_inference_step loads str_of current_step_content tool_results final_answer =
     (case react_output_answer loads current_step_content of
        Inr answer \<Rightarrow>
          (if answer_given answer then ([final_answer_fragment (fmt str_of answer)], answer)
           else ([], final_answer))
      | Inl JSONDecodeError \<Rightarrow> ([parse_failure_fragment current_step_content], final_answer)
      | Inl e \<Rightarrow> ([process_failure_fragment (exn_str e) current_step_content], final_answer))"

section \<open>ReAct mode: one tool execution step\<close>

text \<open>
  The loop of \<open>_process_tool_execution\<close>. Each response is appended to the list (in
  place, so what was appended stays when an exception ends the loop), then its content
  is parsed for printing. When the content is not JSON the handler calls
  \<open>print(content, language=None)\<close>, and \<open>print\<close> raises TypeError on the keyword it
  does not know; any other exception of \<open>json.loads\<close> passes the inner handler. The
  loop returns the list and the exception that ended it, if any.
\<close>

fun append_tool_responses ::
  "json_loads \<Rightarrow> (pystr \<times> pystr) list \<Rightarrow> (pystr \<times> pystr) list \<Rightarrow> (pystr \<times> pystr) list \<times> pyexn option" where
  "append_tool_responses loads tool_results [] = (tool_results, None)"
| "append_tool_responses loads tool_results ((tool_name, content) # rest) =
     (case loads content of
        Inr parsed_content \<Rightarrow> append_tool_responses loads (tool_results @ [(tool_name, content)]) rest
      | Inl JSONDecodeError \<Rightarrow> (tool_results @ [(tool_name, content)], Some TypeError)
      | Inl e \<Rightarrow> (tool_results @ [(tool_name, content)], Some e))"

text \<open>
  \<open>_process_tool_execution\<close>, given the \<open>tool_responses\<close> of the step: the outer
  \<open>except Exception\<close> logs whatever ended the loop, and the list is returned.
\<close>

definition process_tool_execution ::
  "json_loads \<Rightarrow> (pystr \<times> pystr) list option \<Rightarrow> (pystr \<times> pystr) list \<Rightarrow> (pystr \<times> pystr) list" where
  "process_tool_execution loads responses tool_results =
     (case responses of
        None \<Rightarrow> tool_results
      | Some rs \<Rightarrow>
          (if rs \<noteq> [] then
             (case append_tool_responses loads tool_results rs of
                (tool_results', None) \<Rightarrow> tool_results'
              | (tool_results', Some e) \<Rightarrow> tool_results')
           else tool_results))"

section \<open>The tool-results summary\<close>

subsection \<open>Python operations the formatters use\<close>

text \<open>Substring search, for \<open>k in s\<close> on a \<open>str\<close>.\<close>

fun starts_with :: "pystr \<Rightarrow> pystr \<Rightarrow> bool" where
  "starts_with [] s = True"
| "starts_with (c # cs) [] = False"
| "starts_with (c # cs) (d # ds) = (c = d \<and> starts_with cs ds)"

fun str_contains :: "pystr \<Rightarrow> pystr \<Rightarrow> bool" where
  "str_contains sub [] = (sub = [])"
| "str_contains sub (c # cs) = (starts_with sub (c # cs) \<or> str_contains sub cs)"

text \<open>
  \<open>k in v\<close> for a text \<open>k\<close>: a key of a dict, an element of a list, a substring of a
  \<open>str\<close>; TypeError on a value that is not a container.
\<close>

definition py_contains :: "pystr \<Rightarrow> pyval \<Rightarrow> pyexn + bool" where
  "py_contains k v =
     (case v of
        PDict kvs \<Rightarrow> Inr (map_of kvs k \<noteq> None)
      | PList xs \<Rightarrow> Inr (List.member xs (PStr k))
      | PStr s \<Rightarrow> Inr (str_contains k s)
      | _ \<Rightarrow> Inl TypeError)"

text \<open>
  \<open>v[k]\<close> for a text \<open>k\<close>: the value under the key of a dict (KeyError without it);
  TypeError on a list or a \<open>str\<close>, indexed by integers, and on every other value.
\<close>

definition py_getitem :: "pyval \<Rightarrow> pystr \<Rightarrow> pyexn + pyval" where
  "py_getitem v k =
     (case v of
        PDict kvs \<Rightarrow> (case map_of kvs k of Some x \<Rightarrow> Inr x | None \<Rightarrow> Inl KeyError)
      | _ \<Rightarrow> Inl TypeError)"

text \<open>
  Iteration, as \<open>enumerate\<close> does it: over the elements of a list, the keys of a dict,
  the characters of a \<open>str\<close>; TypeError on every other value.
\<close>

definition py_iter :: "pyval \<Rightarrow> pyexn + pyval list" where
  "py_iter v =
     (case v of
        PList xs \<Rightarrow> Inr xs
      | PDict kvs \<Rightarrow> Inr (map (\<lambda>kv. PStr (fst kv)) kvs)
      | PStr s \<Rightarrow> Inr (map (\<lambda>c. PStr [c]) s)
      | _ \<Rightarrow> Inl TypeError)"

text \<open>\<open>str.strip()\<close> removes the leading and trailing white space of Unicode.\<close>

definition py_isspace :: "nat \<Rightarrow> bool" where
  "py_isspace c =
     ((0x09 \<le> c \<and> c \<le> 0x0D) \<or> (0x1C \<le> c \<and> c \<le> 0x20) \<or> c = 0x85 \<or> c = 0xA0 \<or> c = 0x1680
      \<or> (0x2000 \<le> c \<and> c \<le> 0x200A) \<or> c = 0x2028 \<or> c = 0x2029 \<or> c = 0x202F \<or> c = 0x205F
      \<or> c = 0x3000)"

definition strip :: "pystr \<Rightarrow> pystr" where
  "strip s = rev (dropWhile py_isspace (rev (dropWhile py_isspace s)))"

subsection \<open>The four formatters\<close>

text \<open>
  A generator that may raise is modelled by the fragments it yields and the exception
  that ended it, if any: what was yielded before the exception has been emitted.
\<close>

type_synonym fragments = "pystr list \<times> pyexn option"

text \<open>One entry of \<open>_format_web_search_results\<close>: the body of the loop under \<open>i <= 3\<close>.\<close>

definition web_search_entry :: "(pyval \<Rightarrow> pystr) \<Rightarrow> pyval \<Rightarrow> pyexn + pystr" where
  "web_search_entry str_of result =
     (case py_get result (lit ''title'') (PStr (lit ''Untitled'')) of
        Inl e \<Rightarrow> Inl e
      | Inr title \<Rightarrow>
          (case py_get result (lit ''url'') (PStr []) of
             Inl e \<Rightarrow> Inl e
           | Inr url \<Rightarrow>
               (case py_get result (lit ''content'') (PStr []) of
                  Inl e \<Rightarrow> Inl e
                | Inr (PStr c) \<Rightarrow>
                    Inr (lit ''\<newline>- **'' @ fmt str_of title @ lit ''**\<newline>  '' @ strip c
                         @ lit ''\<newline>  [Source]('' @ fmt str_of url @ lit '')\<newline>'')
                | Inr v \<Rightarrow> Inl (no_attribute v ''strip''))))"

text \<open>The loop over \<open>enumerate(..., 1)\<close>; \<open>i\<close> is the index of the head of the list.\<close>

fun web_search_loop :: "(pyval \<Rightarrow> pystr) \<Rightarrow> nat \<Rightarrow> pyval list \<Rightarrow> fragments" where
  "web_search_loop str_of i [] = ([], None)"
| "web_search_loop str_of i (result # rest) =
     (if i \<le> 3 then
        (case web_search_entry str_of result of
           Inl e \<Rightarrow> ([], Some e)
         | Inr f \<Rightarrow> (case web_search_loop str_of (Suc i) rest of (fs, x) \<Rightarrow> (f # fs, x)))
      else web_search_loop str_of (Suc i) rest)"

definition format_web_search_results :: "(pyval \<Rightarrow> pystr) \<Rightarrow> pyval \<Rightarrow> fragments" where
  "format_web_search_results str_of parsed_content =
     (case py_getitem parsed_content (lit ''top_k'') of
        Inl e \<Rightarrow> ([], Some e)
      | Inr top_k \<Rightarrow>
          (case py_iter top_k of
             Inl e \<Rightarrow> ([], Some e)
           | Inr results \<Rightarrow> web_search_loop str_of 1 results))"

text \<open>One entry of \<open>_format_results_list\<close>.\<close>

definition results_entry :: "(pyval \<Rightarrow> pystr) \<Rightarrow> nat \<Rightarrow> pyval \<Rightarrow> pystr" where
  "results_entry str_of i result =
     (case result of
        PDict kvs \<Rightarrow>
          (let name = dict_get kvs (lit ''name'')
                        (dict_get kvs (lit ''title'') (PStr (lit ''Result '' @ str_nat i)));
               description = dict_get kvs (lit ''description'')
                               (dict_get kvs (lit ''content'') (dict_get kvs (lit ''summary'') (PStr [])))
           in lit ''\<newline>- **'' @ fmt str_of name @ lit ''**\<newline>  '' @ fmt str_of description
              @ lit ''\<newline>'')
      | _ \<Rightarrow> lit ''\<newline>- '' @ fmt str_of result @ lit ''\<newline>'')"

fun results_loop :: "(pyval \<Rightarrow> pystr) \<Rightarrow> nat \<Rightarrow> pyval list \<Rightarrow> pystr list" where
  "results_loop str_of i [] = []"
| "results_loop str_of i (result # rest) =
     (if i \<le> 3 then results_entry str_of i result # results_loop str_of (Suc i) rest
      else results_loop str_of (Suc i) rest)"

definition format_results_list :: "(pyval \<Rightarrow> pystr) \<Rightarrow> pyval list \<Rightarrow> pystr list" where
  "format_results_list str_of results = results_loop str_of 1 results"

text \<open>One line of \<open>_format_dict_results\<close>.\<close>

definition complex_data_line :: "pystr \<Rightarrow> pystr" where
  "complex_data_line key = key @ lit '': [Complex data]\<newline>''"

fun dict_line :: "pystr \<times> pyval \<Rightarrow> pystr" where
  "dict_line (key, PStr s) =
     (if length s < 100 then key @ lit '': '' @ s @ lit ''\<newline>'' else complex_data_line key)"
| "dict_line (key, v) = complex_data_line key"

definition format_dict_results :: "(pystr \<times> pyval) list \<Rightarrow> pystr list" where
  "format_dict_results parsed_content =
     [lit ''\<newline>```\<newline>''] @ map dict_line (take 5 parsed_content) @ [lit ''```\<newline>'']"

text \<open>One item of \<open>_format_list_results\<close>: at most one fragment.\<close>

definition list_item :: "(pyval \<Rightarrow> pystr) \<Rightarrow> pyval \<Rightarrow> pystr list" where
  "list_item str_of item =
     (case item of
        PStr s \<Rightarrow> [lit ''- '' @ s @ lit ''\<newline>'']
      | PDict kvs \<Rightarrow>
          (case map_of kvs (lit ''text'') of
             Some t \<Rightarrow> [lit ''- '' @ fmt str_of t @ lit ''\<newline>'']
           | None \<Rightarrow>
               (case kvs of
                  [] \<Rightarrow> []
                | (k, PStr first_value) # _ \<Rightarrow>
                    (if length first_value < 100 then [lit ''- '' @ first_value @ lit ''\<newline>'']
                     else [])
                | (k, v) # _ \<Rightarrow> []))
      | _ \<Rightarrow> [])"

definition format_list_results :: "(pyval \<Rightarrow> pystr) \<Rightarrow> pyval list \<Rightarrow> pystr list" where
  "format_list_results str_of parsed_content =
     [lit ''\<newline>''] @ concat (map (list_item str_of) (take 3 parsed_content))"

subsection \<open>The summary\<close>

definition summary_header :: pystr where
  "summary_header = lit ''\<newline>\<newline>**Here's what I found:**\<newline>''"

definition complex_data_fragment :: "pystr \<Rightarrow> pystr" where
  "complex_data_fragment tool_name =
     lit ''\<newline>**'' @ tool_name
     @ lit ''** was used but returned complex data. Check the observation for details.\<newline>''"

text \<open>
  The second test of the chain,
  \<open>"results" in parsed_content and isinstance(parsed_content["results"], list)\<close>:
  the list under \<open>results\<close> when the test holds, \<open>None\<close> when it does not.
\<close>

definition results_if_list :: "pyval \<Rightarrow> pyexn + pyval list option" where
  "results_if_list parsed_content =
     (case py_contains (lit ''results'') parsed_content of
        Inl e \<Rightarrow> Inl e
      | Inr has \<Rightarrow>
          (if has then
             (case py_getitem parsed_content (lit ''results'') of
                Inl e \<Rightarrow> Inl e
              | Inr (PList results) \<Rightarrow> Inr (Some results)
              | Inr v \<Rightarrow> Inr None)
           else Inr None))"

text \<open>The last two tests of the chain, which raise nothing.\<close>

definition format_dict_or_list :: "(pyval \<Rightarrow> pystr) \<Rightarrow> pyval \<Rightarrow> pystr list" where
  "format_dict_or_list str_of parsed_content =
     (case parsed_content of
        PDict kvs \<Rightarrow> (if kvs \<noteq> [] then format_dict_results kvs else [])
      | PList xs \<Rightarrow> (if xs \<noteq> [] then format_list_results str_of xs else [])
      | _ \<Rightarrow> [])"

text \<open>The \<open>try\<close> block of the loop of \<open>_format_tool_results_summary\<close>.\<close>

definition tool_result_body ::
  "json_loads \<Rightarrow> (pyval \<Rightarrow> pystr) \<Rightarrow> pystr \<Rightarrow> pystr \<Rightarrow> fragments" where
  "tool_result_body loads str_of tool_name content =
     (case loads content of
        Inl e \<Rightarrow> ([], Some e)
      | Inr parsed_content \<Rightarrow>
          (case (if tool_name = lit ''web_search'' then py_contains (lit ''top_k'') parsed_content
                 else Inr False) of
             Inl e \<Rightarrow> ([], Some e)
           | Inr web \<Rightarrow>
               (if web then format_web_search_results str_of parsed_content
                else
                  (case results_if_list parsed_content of
                     Inl e \<Rightarrow> ([], Some e)
                   | Inr (Some results) \<Rightarrow> (format_results_list str_of results, None)
                   | Inr None \<Rightarrow> (format_dict_or_list str_of parsed_content, None)))))"

text \<open>
  The \<open>try\<close> statement with its two handlers, for one pair: a JSONDecodeError yields
  the fragment on complex data; a TypeError, AttributeError, KeyError or IndexError is
  printed; any other exception is caught by neither handler and leaves the statement.
  The fragments yielded before the exception stay.
\<close>

definition format_tool_result ::
  "json_loads \<Rightarrow> (pyval \<Rightarrow> pystr) \<Rightarrow> pystr \<times> pystr \<Rightarrow> fragments" where
  "format_tool_result loads str_of r =
     (case tool_result_body loads str_of (fst r) (snd r) of
        (fs, None) \<Rightarrow> (fs, None)
      | (fs, Some JSONDecodeError) \<Rightarrow> (fs @ [complex_data_fragment (fst r)], None)
      | (fs, Some TypeError) \<Rightarrow> (fs, None)
      | (fs, Some (AttributeError m)) \<Rightarrow> (fs, None)
      | (fs, Some KeyError) \<Rightarrow> (fs, None)
      | (fs, Some IndexError) \<Rightarrow> (fs, None)
      | (fs, Some e) \<Rightarrow> (fs, Some e))"

text \<open>
  The loop over the pairs: an exception that leaves the \<open>try\<close> statement ends the
  generator, and the pairs after it are not formatted.
\<close>

fun format_tool_results :: "json_loads \<Rightarrow> (pyval \<Rightarrow> pystr) \<Rightarrow> (pystr \<times> pystr) list \<Rightarrow> fragments" where
  "format_tool_results loads str_of [] = ([], None)"
| "format_tool_results loads str_of (r # rest) =
     (case format_tool_result loads str_of r of
        (fs, Some e) \<Rightarrow> (fs, Some e)
      | (fs, None) \<Rightarrow>
          (case format_tool_results loads str_of rest of (gs, x) \<Rightarrow> (fs @ gs, x)))"

definition format_tool_results_summary ::
  "json_loads \<Rightarrow> (pyval \<Rightarrow> pystr) \<Rightarrow> (pystr \<times> pystr) list \<Rightarrow> fragments" where
  "format_tool_results_summary loads str_of tool_results =
     (case format_tool_results loads str_of tool_results of
        (fs, x) \<Rightarrow> (summary_header # fs, x))"


section \<open>ReAct mode: the turn\<close>

text \<open>The three locals of \<open>_handle_react_response\<close>.\<close>

record react_state =
  current_step_content :: pystr
  final_answer :: pyval
  tool_results :: "(pystr \<times> pystr) list"

definition react_init :: react_state where
  "react_init = \<lparr>current_step_content = [], final_answer = PNone, tool_results = []\<rparr>"

text \<open>
  The body of the loop for an event that has a payload. At an inference step the
  fragments of \<open>_process_inference_step\<close> are passed on by \<open>yield from\<close>, used as a
  statement: the value the generator returns is dropped, and the local \<open>final_answer\<close>
  of \<open>_handle_react_response\<close> is not assigned.
\<close>

definition react_payload ::
  "json_loads \<Rightarrow> (pyval \<Rightarrow> pystr) \<Rightarrow> react_state \<Rightarrow> payload \<Rightarrow> pystr list \<times> react_state" where
  "react_payload loads str_of st p =
     (case p of
        StepProgress (Some t) \<Rightarrow>
          ([], st\<lparr>current_step_content := current_step_content st @ t\<rparr>)
      | StepProgress None \<Rightarrow> ([], st)
      | StepComplete Inference \<Rightarrow>
          (fst (process_inference_step loads str_of (current_step_content st) (tool_results st)
                  (final_answer st)),
           st\<lparr>current_step_content := []\<rparr>)
      | StepComplete (ToolExecution calls responses) \<Rightarrow>
          ([], st\<lparr>tool_results := process_tool_execution loads responses (tool_results st),
                  current_step_content := []\<rparr>)
      | StepComplete OtherStep \<Rightarrow> ([], st\<lparr>current_step_content := []\<rparr>)
      | OtherPayload \<Rightarrow> ([], st))"

text \<open>
  The loop over the events: the fragments yielded, and the locals at the end of the
  loop, or \<open>None\<close> when a malformed event made the generator return.
\<close>

fun react_loop ::
  "json_loads \<Rightarrow> (pyval \<Rightarrow> pystr) \<Rightarrow> react_state \<Rightarrow> event list \<Rightarrow> pystr list \<times> react_state option" where
  "react_loop loads str_of st [] = ([], Some st)"
| "react_loop loads str_of st (Malformed r # es) = ([react_malformed_fragment r], None)"
| "react_loop loads str_of st (Event p # es) =
     (case react_payload loads str_of st p of
        (out, st') \<Rightarrow>
          (case react_loop loads str_of st' es of (outs, fin) \<Rightarrow> (out @ outs, fin)))"

text \<open>
  \<open>_handle_react_response\<close>: the fragments of the turn, and the exception that ended
  the generator, if one left the summary.
\<close>

definition handle_react_response :: "json_loads \<Rightarrow> (pyval \<Rightarrow> pystr) \<Rightarrow> event list \<Rightarrow> fragments" where
  "handle_react_response loads str_of turn_response =
     (case react_loop loads str_of react_init turn_response of
        (out, None) \<Rightarrow> (out, None)
      | (out, Some st) \<Rightarrow>
          (if \<not> truthy (final_answer st) \<and> tool_results st \<noteq> []
           then (case format_tool_results_summary loads str_of (tool_results st) of
                   (fs, x) \<Rightarrow> (out @ fs, x))
           else (out, None)))"

text \<open>The test \<open>not hasattr(response.event, "payload")\<close>.\<close>

fun is_malformed :: "event \<Rightarrow> bool" where
  "is_malformed (Malformed r) = True"
| "is_malformed (Event p) = False"

section \<open>Users\<close>

text \<open>
  The request body \<open>schemas.UserCreate\<close> and the row \<open>models.User\<close>, with the fields
  the two handlers read and write. The table is a map from the id to the row.
\<close>

record user_create =
  uc_username :: pystr
  uc_email :: pystr
  uc_password :: pystr
  uc_role :: pystr

record user =
  username :: pystr
  email :: pystr
  password_hash :: pystr
  role :: pystr

type_synonym uuid = nat

type_synonym users_table = "uuid \<Rightarrow> user option"

datatype http_error = HTTP_404

text \<open>
  \<open>create_user\<close>. \<open>bcrypt.hashpw\<close> (on texts: the encoding to UTF-8 and back is part
  of it here), the salt \<open>bcrypt.gensalt()\<close> returned and the id the database gives to
  the new row are parameters.
\<close>

definition create_user ::
  "(pystr \<Rightarrow> pystr \<Rightarrow> pystr) \<Rightarrow> pystr \<Rightarrow> uuid \<Rightarrow> user_create \<Rightarrow> users_table \<Rightarrow> users_table \<times> user" where
  "create_user hashpw salt new_id u db =
     (let hashed_password = hashpw (uc_password u) salt;
          db_user = \<lparr>username = uc_username u, email = uc_email u,
                     password_hash = hashed_password, role = uc_role u\<rparr>
      in (db(new_id \<mapsto> db_user), db_user))"

definition update_user :: "uuid \<Rightarrow> user_create \<Rightarrow> users_table \<Rightarrow> http_error + users_table \<times> user" where
  "update_user user_id u db =
     (case db user_id of
        None \<Rightarrow> Inl HTTP_404
      | Some db_user \<Rightarrow>
          (let db_user' = db_user\<lparr>username := uc_username u, email := uc_email u,
                                   password_hash := uc_password u, role := uc_role u\<rparr>
           in Inr (db(user_id \<mapsto> db_user'), db_user')))"

section \<open>Regular mode passes text deltas through\<close>

lemma handle_regular_response_append:
  "handle_regular_response (xs @ ys) = handle_regular_response xs @ handle_regular_response ys"
  by (induction xs) simp_all

text \<open>
  Claim C6. In Regular mode, a sequence of \<open>step_progress\<close> events that carry text
  deltas (and no \<open>step_complete\<close> event) yields exactly the deltas, verbatim and in
  arrival order, so the fragments concatenated are the deltas concatenated.
\<close>

theorem regular_progress_verbatim:
  "handle_regular_response (map (\<lambda>d. Event (StepProgress (Some d))) deltas) = deltas
   \<and> concat (handle_regular_response (map (\<lambda>d. Event (StepProgress (Some d))) deltas))
       = concat deltas"
proof -
  have "handle_regular_response (map (\<lambda>d. Event (StepProgress (Some d))) deltas) = deltas"
    by (induction deltas) simp_all
  then show ?thesis by simp
qed

theorem regular_progress_verbatim_witness:
  "handle_regular_response
     [Event (StepProgress (Some (lit ''Hel''))), Event (StepProgress (Some (lit ''lo'')))]
   = [lit ''Hel'', lit ''lo'']"
  using regular_progress_verbatim [of "[lit ''Hel'', lit ''lo'']"] by simp

section \<open>Malformed events\<close>

lemma react_loop_until_malformed:
  "\<forall>e\<in>set pre. \<not> is_malformed e \<Longrightarrow>
   react_loop loads str_of st (pre @ Malformed r # post) =
     (fst (react_loop loads str_of st pre) @ [react_malformed_fragment r], None)"
proof (induction pre arbitrary: st)
  case Nil
  then show ?case by simp
next
  case (Cons e pre)
  then show ?case
    by (cases e) (auto split: prod.splits)
qed

text \<open>
  Claim C2. At the first event without a payload, ReAct mode emits the fragments of the
  events before it, then one diagnostic fragment, which says that the response lacks
  the \<open>payload\<close> attribute and ends with the text of the response, and the generator
  returns: the events after it are not processed and no summary follows. At any event
  without a payload, Regular mode emits a diagnostic fragment that ends with the text
  of the whole event and goes on with the events after it.
\<close>

theorem malformed_event_react_stops_regular_continues:
  "((\<forall>e\<in>set pre. \<not> is_malformed e) \<longrightarrow>
      handle_react_response loads str_of (pre @ Malformed r # post) =
        (fst (react_loop loads str_of react_init pre)
         @ [lit ''\<newline>\<newline>'' @ [0x1F6A8] @ lit '' :red[_Llama Stack server Error:_]\<newline>''
            @ lit ''The response received is missing an expected `payload` attribute.\<newline>''
            @ lit ''This could indicate a malformed response or an internal issue within the server.\<newline>\<newline>''
            @ lit ''Error details: '' @ r],
         None))
   \<and> handle_regular_response (pre @ Malformed r # post) =
       handle_regular_response pre @ [lit ''Error occurred in the Llama Stack Cluster: '' @ r]
       @ handle_regular_response post"
proof (intro conjI impI)
  assume "\<forall>e\<in>set pre. \<not> is_malformed e"
  then have "react_loop loads str_of react_init (pre @ Malformed r # post) =
               (fst (react_loop loads str_of react_init pre) @ [react_malformed_fragment r], None)"
    by (rule react_loop_until_malformed)
  then show "handle_react_response loads str_of (pre @ Malformed r # post) =
        (fst (react_loop loads str_of react_init pre)
         @ [lit ''\<newline>\<newline>'' @ [0x1F6A8] @ lit '' :red[_Llama Stack server Error:_]\<newline>''
            @ lit ''The response received is missing an expected `payload` attribute.\<newline>''
            @ lit ''This could indicate a malformed response or an internal issue within the server.\<newline>\<newline>''
            @ lit ''Error details: '' @ r],
         None)"
    by (simp add: handle_react_response_def react_malformed_fragment_def)
next
  show "handle_regular_response (pre @ Malformed r # post) =
          handle_regular_response pre @ [lit ''Error occurred in the Llama Stack Cluster: '' @ r]
          @ handle_regular_response post"
    by (simp add: handle_regular_response_append regular_malformed_fragment_def)
qed

theorem malformed_event_witness:
  "handle_react_response (loads_table Map.empty) str_of_atoms
     ([Event (StepProgress (Some (lit ''a'')))] @ Malformed (lit ''resp'')
       # [Event (StepProgress (Some (lit ''b'')))])
     = ([lit ''\<newline>\<newline>'' @ [0x1F6A8] @ lit '' :red[_Llama Stack server Error:_]\<newline>''
         @ lit ''The response received is missing an expected `payload` attribute.\<newline>''
         @ lit ''This could indicate a malformed response or an internal issue within the server.\<newline>\<newline>''
         @ lit ''Error details: resp''], None)
   \<and> handle_regular_response
       ([Event (StepProgress (Some (lit ''a'')))] @ Malformed (lit ''resp'')
         # [Event (StepProgress (Some (lit ''b'')))])
     = [lit ''a'', lit ''Error occurred in the Llama Stack Cluster: resp'', lit ''b'']"
  using malformed_event_react_stops_regular_continues
    [of "[Event (StepProgress (Some (lit ''a'')))]" "loads_table Map.empty" str_of_atoms
        "lit ''resp''" "[Event (StepProgress (Some (lit ''b'')))]"]
  by (simp add: react_payload_def lit_def)

section \<open>The final answer and the summary\<close>

text \<open>
  The local \<open>final_answer\<close> of \<open>_handle_react_response\<close> is never assigned in the
  loop: it still holds \<open>None\<close> when the loop ends.
\<close>

lemma react_payload_final_answer:
  "final_answer (snd (react_payload loads str_of st p)) = final_answer st"
  by (simp add: react_payload_def split: payload.splits option.splits step_details.splits)

lemma react_loop_final_answer:
  "react_loop loads str_of st es = (out, Some st') \<Longrightarrow> final_answer st' = final_answer st"
proof (induction es arbitrary: st out)
  case Nil
  then show ?case by simp
next
  case (Cons e es)
  show ?case
  proof (cases e)
    case (Malformed r)
    with Cons.prems show ?thesis by simp
  next
    case (Event p)
    obtain o1 st1 where p1: "react_payload loads str_of st p = (o1, st1)"
      by (cases "react_payload loads str_of st p")
    obtain o2 fin where p2: "react_loop loads str_of st1 es = (o2, fin)"
      by (cases "react_loop loads str_of st1 es")
    from Cons.prems Event p1 p2 have "fin = Some st'" by simp
    with p2 Cons.IH have "final_answer st' = final_answer st1" by simp
    moreover from p1 have "final_answer st1 = final_answer st"
      using react_payload_final_answer [of loads str_of st p] by simp
    ultimately show ?thesis by simp
  qed
qed

text \<open>
  Claim C1. A turn in ReAct mode: a tool execution step records one tool result, then
  an inference step whose buffered text parses to \<open>{"answer": "42"}\<close> emits the final
  answer. The claim says that no summary is emitted at the end of such a turn; the code
  emits the header of the summary after the final answer.
\<close>

theorem react_summary_despite_final_answer:
  "handle_react_response
     (loads_table
        [lit ''{\"answer\": \"42\"}'' \<mapsto> PDict [(lit ''answer'', PStr (lit ''42''))],
         lit ''{}'' \<mapsto> PDict []])
     str_of_atoms
     [Event (StepComplete (ToolExecution [lit ''t''] (Some [(lit ''t'', lit ''{}'')]))),
      Event (StepProgress (Some (lit ''{\"answer\": \"42\"}''))),
      Event (StepComplete Inference)]
   = ([lit ''\<newline>\<newline>'' @ [0x2705] @ lit '' **Final Answer:**\<newline>42'',
       lit ''\<newline>\<newline>**Here's what I found:**\<newline>''], None)"
  by (simp add: handle_react_response_def react_init_def react_payload_def
      process_tool_execution_def process_inference_step_def react_output_answer_def py_get_def
      dict_get_def answer_given_def fmt_def format_tool_results_summary_def
      format_tool_result_def tool_result_body_def results_if_list_def py_contains_def
      format_dict_or_list_def loads_table_def final_answer_fragment_def summary_header_def
      lit_def)

section \<open>The inference step\<close>

text \<open>
  Claim C3, as the code has it. When the buffered text of an inference step parses to a
  dict whose \<open>answer\<close> is a string other than \<open>"null"\<close>: a non-empty answer yields
  exactly one fragment, the final answer, and is the value returned; the empty string
  fails the test \<open>if answer\<close> and yields no fragment.
\<close>

theorem final_answer_for_nonempty_answer:
  assumes "loads c = Inr (PDict kvs)"
    and "map_of kvs (lit ''answer'') = Some (PStr a)"
    and "a \<noteq> lit ''null''"
  shows "(a \<noteq> [] \<longrightarrow>
            process_inference_step loads str_of c trs fa =
              ([lit ''\<newline>\<newline>'' @ [0x2705] @ lit '' **Final Answer:**\<newline>'' @ a], PStr a))
         \<and> (a = [] \<longrightarrow> process_inference_step loads str_of c trs fa = ([], fa))"
  using assms
  by (simp add: process_inference_step_def react_output_answer_def py_get_def dict_get_def
      answer_given_def fmt_def final_answer_fragment_def)

theorem final_answer_witness:
  "process_inference_step
     (loads_table [lit ''{\"answer\": \"42\"}'' \<mapsto> PDict [(lit ''answer'', PStr (lit ''42''))]])
     str_of_atoms (lit ''{\"answer\": \"42\"}'') [] PNone
   = ([lit ''\<newline>\<newline>'' @ [0x2705] @ lit '' **Final Answer:**\<newline>42''], PStr (lit ''42''))"
  using final_answer_for_nonempty_answer
    [of "loads_table [lit ''{\"answer\": \"42\"}'' \<mapsto> PDict [(lit ''answer'', PStr (lit ''42''))]]"
        "lit ''{\"answer\": \"42\"}''" "[(lit ''answer'', PStr (lit ''42''))]" "lit ''42''"
        str_of_atoms "[]" PNone]
  by (simp add: loads_table_def lit_def)

text \<open>
  The claim as stated fails for the empty answer: the text \<open>{"answer": ""}\<close> parses
  to a dict whose \<open>answer\<close> is a string, not null and not \<open>"null"\<close>, and the step
  emits nothing.
\<close>

theorem empty_answer_emits_nothing:
  "fst (process_inference_step
          (loads_table [lit ''{\"answer\": \"\"}'' \<mapsto> PDict [(lit ''answer'', PStr [])]])
          str_of_atoms (lit ''{\"answer\": \"\"}'') [] PNone) = []
   \<and> fst (process_inference_step
          (loads_table [lit ''{\"answer\": \"\"}'' \<mapsto> PDict [(lit ''answer'', PStr [])]])
          str_of_atoms (lit ''{\"answer\": \"\"}'') [] PNone) \<noteq> [final_answer_fragment []]"
  by (simp add: process_inference_step_def react_output_answer_def py_get_def dict_get_def
      answer_given_def loads_table_def)

text \<open>
  The \<open>try\<close> block raises in two ways only: \<open>json.loads\<close> raises, or the value
  parsed is not a dict and has no \<open>get\<close>.
\<close>

lemma react_output_answer_exn:
  "react_output_answer loads c = Inl e \<Longrightarrow>
     loads c = Inl e \<or> (\<exists>v. loads c = Inr v \<and> e = no_attribute v ''get'')"
  by (auto simp: react_output_answer_def py_get_def split: pyval.splits sum.splits)

text \<open>
  Claim C10. In an inference step, a buffered text that is not JSON yields exactly one
  diagnostic fragment holding the raw text; a text that parses to a value without
  \<open>get\<close> yields one diagnostic fragment holding the message of the error and the raw
  text; a dict raises nothing; whatever the \<open>try\<close> block raises, the step ends with
  one fragment and returns to its caller; and a ValueError or a RecursionError of
  \<open>json.loads\<close> yields the diagnostic fragment with its message and the raw text.
\<close>

theorem inference_step_errors_become_fragments:
  "(loads c = Inl JSONDecodeError \<longrightarrow>
      process_inference_step loads str_of c trs fa =
        ([lit ''\<newline>\<newline>Failed to parse ReAct step content:\<newline>```json\<newline>'' @ c @ lit ''\<newline>```''], fa))
   \<and> (loads c = Inr v \<and> (\<forall>kvs. v \<noteq> PDict kvs) \<longrightarrow>
      process_inference_step loads str_of c trs fa =
        ([lit ''\<newline>\<newline>Failed to process ReAct step: ''
          @ [39] @ type_name v @ [39] @ lit '' object has no attribute '' @ [39] @ lit ''get'' @ [39]
          @ lit ''\<newline>```json\<newline>'' @ c @ lit ''\<newline>```''], fa))
   \<and> (loads c = Inr (PDict kvs) \<longrightarrow>
      react_output_answer loads c = Inr (dict_get kvs (lit ''answer'') PNone))
   \<and> (\<forall>e. react_output_answer loads c = Inl e \<longrightarrow>
        (\<exists>f. process_inference_step loads str_of c trs fa = ([f], fa)))
   \<and> (loads c = Inl (ValueError m) \<longrightarrow>
      process_inference_step loads str_of c trs fa =
        ([lit ''\<newline>\<newline>Failed to process ReAct step: '' @ m
          @ lit ''\<newline>```json\<newline>'' @ c @ lit ''\<newline>```''], fa))
   \<and> (loads c = Inl (RecursionError m) \<longrightarrow>
      process_inference_step loads str_of c trs fa =
        ([lit ''\<newline>\<newline>Failed to process ReAct step: '' @ m
          @ lit ''\<newline>```json\<newline>'' @ c @ lit ''\<newline>```''], fa))"
proof (intro conjI impI allI)
  assume "loads c = Inl JSONDecodeError"
  then show "process_inference_step loads str_of c trs fa =
        ([lit ''\<newline>\<newline>Failed to parse ReAct step content:\<newline>```json\<newline>'' @ c @ lit ''\<newline>```''], fa)"
    by (simp add: process_inference_step_def react_output_answer_def parse_failure_fragment_def)
next
  assume "loads c = Inr v \<and> (\<forall>kvs. v \<noteq> PDict kvs)"
  then show "process_inference_step loads str_of c trs fa =
        ([lit ''\<newline>\<newline>Failed to process ReAct step: ''
          @ [39] @ type_name v @ [39] @ lit '' object has no attribute '' @ [39] @ lit ''get'' @ [39]
          @ lit ''\<newline>```json\<newline>'' @ c @ lit ''\<newline>```''], fa)"
    by (cases v)
      (simp_all add: process_inference_step_def react_output_answer_def py_get_def
        no_attribute_def process_failure_fragment_def)
next
  assume "loads c = Inr (PDict kvs)"
  then show "react_output_answer loads c = Inr (dict_get kvs (lit ''answer'') PNone)"
    by (simp add: react_output_answer_def py_get_def)
next
  fix e
  assume "react_output_answer loads c = Inl e"
  then show "\<exists>f. process_inference_step loads str_of c trs fa = ([f], fa)"
    by (cases e) (simp_all add: process_inference_step_def)
next
  assume "loads c = Inl (ValueError m)"
  then show "process_inference_step loads str_of c trs fa =
        ([lit ''\<newline>\<newline>Failed to process ReAct step: '' @ m
          @ lit ''\<newline>```json\<newline>'' @ c @ lit ''\<newline>```''], fa)"
    by (simp add: process_inference_step_def react_output_answer_def process_failure_fragment_def)
next
  assume "loads c = Inl (RecursionError m)"
  then show "process_inference_step loads str_of c trs fa =
        ([lit ''\<newline>\<newline>Failed to process ReAct step: '' @ m
          @ lit ''\<newline>```json\<newline>'' @ c @ lit ''\<newline>```''], fa)"
    by (simp add: process_inference_step_def react_output_answer_def process_failure_fragment_def)
qed

theorem inference_step_errors_witness:
  "process_inference_step (loads_table Map.empty) str_of_atoms (lit ''not json'') [] PNone =
     ([lit ''\<newline>\<newline>Failed to parse ReAct step content:\<newline>```json\<newline>not json\<newline>```''], PNone)
   \<and> process_inference_step (loads_table [lit ''[1]'' \<mapsto> PList [PInt 1]]) str_of_atoms
         (lit ''[1]'') [] PNone =
     ([lit ''\<newline>\<newline>Failed to process ReAct step: 'list' object has no attribute 'get'\<newline>```json\<newline>[1]\<newline>```''], PNone)"
  using inference_step_errors_become_fragments
      [of "loads_table Map.empty" "lit ''not json''" str_of_atoms "[]" PNone PNone "[]" "[]"]
    inference_step_errors_become_fragments
      [of "loads_table [lit ''[1]'' \<mapsto> PList [PInt 1]]" "lit ''[1]''" str_of_atoms "[]" PNone
          "PList [PInt 1]" "[]" "[]"]
  by (simp add: loads_table_def lit_def)

section \<open>The tool execution step\<close>

text \<open>
  When the content of every response is JSON, every response is appended, in order.
\<close>

lemma append_tool_responses_all_json:
  "\<forall>r\<in>set rs. \<exists>v. loads (snd r) = Inr v \<Longrightarrow>
   append_tool_responses loads trs rs = (trs @ rs, None)"
  by (induction rs arbitrary: trs) (auto split: sum.splits)

text \<open>
  Claim C4. A tool execution step with two responses, the first with the content
  \<open>oops\<close>, which is not JSON, the second with the content \<open>{}\<close>. The claim says that
  both pairs are appended to the tool results; the code appends the first, the
  \<open>print\<close> of its content raises, the outer handler logs the error, and the second
  pair is never appended.
\<close>

theorem tool_responses_after_bad_content_dropped:
  "process_tool_execution (loads_table [lit ''{}'' \<mapsto> PDict []])
     (Some [(lit ''a'', lit ''oops''), (lit ''b'', lit ''{}'')]) []
   = [(lit ''a'', lit ''oops'')]"
  by (simp add: process_tool_execution_def loads_table_def lit_def)

section \<open>The summary of the tool results\<close>














section \<open>Bounds of the formatters\<close>

lemma web_search_loop_length: "length (fst (web_search_loop str_of i rs)) \<le> 4 - i"
proof (induction rs arbitrary: i)
  case Nil
  then show ?case by simp
next
  case (Cons r rs)
  have ih: "length (fst (web_search_loop str_of (Suc i) rs)) \<le> 4 - Suc i" by (rule Cons.IH)
  show ?case
  proof (cases "i \<le> 3")
    case False
    with ih show ?thesis by simp
  next
    case True
    with ih show ?thesis
      by (cases "web_search_entry str_of r"; cases "web_search_loop str_of (Suc i) rs") auto
  qed
qed

lemma results_loop_length: "length (results_loop str_of i rs) \<le> 4 - i"
proof (induction rs arbitrary: i)
  case Nil
  then show ?case by simp
next
  case (Cons r rs)
  have "length (results_loop str_of (Suc i) rs) \<le> 4 - Suc i" by (rule Cons.IH)
  then show ?case by auto
qed

lemma results_loop_take:
  "results_loop str_of i rs = results_loop str_of i (take (4 - i) rs)"
proof (induction rs arbitrary: i)
  case Nil
  then show ?case by simp
next
  case (Cons r rs)
  have ih: "results_loop str_of (Suc i) rs = results_loop str_of (Suc i) (take (4 - Suc i) rs)"
    by (rule Cons.IH)
  show ?case
  proof (cases "i \<le> 3")
    case False
    with ih show ?thesis by simp
  next
    case True
    then have "4 - i = Suc (4 - Suc i)" by arith
    then have t: "take (4 - i) (r # rs) = r # take (4 - Suc i) rs"
      by (simp only: take_Suc_Cons)
    with True ih show ?thesis by simp
  qed
qed

lemma list_item_length: "length (list_item str_of item) \<le> 1"
  by (simp add: list_item_def split: pyval.splits option.splits list.splits prod.splits)

lemma concat_list_items_length:
  "length (concat (map (list_item str_of) ys)) \<le> length ys"
proof (induction ys)
  case Nil
  then show ?case by simp
next
  case (Cons y ys)
  with list_item_length [of str_of y] show ?case by simp
qed

text \<open>
  Claim C8. Whatever the size of the value parsed, a web search yields at most 3
  entries, a results list at most 3 entries, those of its first 3 elements, a plain
  list a line break and at most 3 entries, those of its first 3 elements, and a dict
  its two fence fragments and one line for each of its first 5 keys at most.
\<close>

theorem formatters_emit_bounded_entries:
  "length (fst (format_web_search_results str_of parsed_content)) \<le> 3
   \<and> length (format_results_list str_of results) \<le> 3
   \<and> format_results_list str_of results = format_results_list str_of (take 3 results)
   \<and> hd (format_list_results str_of items) = lit ''\<newline>''
   \<and> length (tl (format_list_results str_of items)) \<le> 3
   \<and> format_list_results str_of items = format_list_results str_of (take 3 items)
   \<and> length (format_dict_results kvs) = 2 + min 5 (length kvs)
   \<and> format_dict_results kvs = format_dict_results (take 5 kvs)"
proof (intro conjI)
  show "length (fst (format_web_search_results str_of parsed_content)) \<le> 3"
    using web_search_loop_length [of str_of 1]
    by (simp add: format_web_search_results_def split: sum.splits)
  show "length (format_results_list str_of results) \<le> 3"
    using results_loop_length [of str_of 1 results] by (simp add: format_results_list_def)
  show "format_results_list str_of results = format_results_list str_of (take 3 results)"
    using results_loop_take [of str_of 1 results] by (simp add: format_results_list_def)
  show "hd (format_list_results str_of items) = lit ''\<newline>''"
    by (simp add: format_list_results_def)
  show "length (tl (format_list_results str_of items)) \<le> 3"
    using concat_list_items_length [of str_of "take 3 items"]
    by (simp add: format_list_results_def)
  show "format_list_results str_of items = format_list_results str_of (take 3 items)"
    by (simp add: format_list_results_def)
  show "length (format_dict_results kvs) = 2 + min 5 (length kvs)"
    by (simp add: format_dict_results_def min.commute)
  show "format_dict_results kvs = format_dict_results (take 5 kvs)"
    by (simp add: format_dict_results_def)
qed


theorem formatters_emit_bounded_entries_witness:
  "format_results_list str_of_atoms
     [PStr (lit ''a''), PStr (lit ''b''), PStr (lit ''c''), PStr (lit ''d'')]
   = [lit ''\<newline>- a\<newline>'', lit ''\<newline>- b\<newline>'', lit ''\<newline>- c\<newline>'']"
  using formatters_emit_bounded_entries
    [of str_of_atoms PNone "[PStr (lit ''a''), PStr (lit ''b''), PStr (lit ''c''), PStr (lit ''d'')]"
        "[]" "[]"]
  by (simp add: format_results_list_def results_entry_def fmt_def lit_def)

text \<open>
  Claim C9. In the fragments of a dict, the line of each of the first 5 pairs is
  \<open>key: value\<close> when the value is a string of fewer than 100 characters, and
  \<open>key: [Complex data]\<close> when it is a string of 100 characters or more, which
  differs from the line with the literal value, or not a string.
\<close>

theorem dict_values_rendering:
  assumes "i < length kvs" and "i < 5" and "kvs ! i = (key, v)"
  shows "(\<forall>s. v = PStr s \<and> length s < 100 \<longrightarrow>
            format_dict_results kvs ! Suc i = key @ lit '': '' @ s @ lit ''\<newline>'')
         \<and> (\<forall>s. v = PStr s \<and> 100 \<le> length s \<longrightarrow>
            format_dict_results kvs ! Suc i = key @ lit '': [Complex data]\<newline>''
            \<and> format_dict_results kvs ! Suc i \<noteq> key @ lit '': '' @ s @ lit ''\<newline>'')
         \<and> ((\<forall>s. v \<noteq> PStr s) \<longrightarrow>
            format_dict_results kvs ! Suc i = key @ lit '': [Complex data]\<newline>'')"
proof -
  from assms have line: "format_dict_results kvs ! Suc i = dict_line (key, v)"
    by (simp add: format_dict_results_def nth_append)
  have long: "key @ lit '': [Complex data]\<newline>'' \<noteq> key @ lit '': '' @ s @ lit ''\<newline>''"
    if "100 \<le> length s" for s
  proof
    assume "key @ lit '': [Complex data]\<newline>'' = key @ lit '': '' @ s @ lit ''\<newline>''"
    then have "length (key @ lit '': [Complex data]\<newline>'') = length (key @ lit '': '' @ s @ lit ''\<newline>'')"
      by simp
    with that show False by (simp add: lit_def)
  qed
  show ?thesis
  proof (intro conjI allI impI)
    fix s assume "v = PStr s \<and> length s < 100"
    with line show "format_dict_results kvs ! Suc i = key @ lit '': '' @ s @ lit ''\<newline>''" by simp
  next
    fix s assume a: "v = PStr s \<and> 100 \<le> length s"
    with line show c: "format_dict_results kvs ! Suc i = key @ lit '': [Complex data]\<newline>''"
      by (simp add: complex_data_line_def)
    from a long [of s] c
    show "format_dict_results kvs ! Suc i \<noteq> key @ lit '': '' @ s @ lit ''\<newline>''" by simp
  next
    assume "\<forall>s. v \<noteq> PStr s"
    with line show "format_dict_results kvs ! Suc i = key @ lit '': [Complex data]\<newline>''"
      by (cases v) (simp_all add: complex_data_line_def)
  qed
qed

theorem dict_values_rendering_witness:
  "format_dict_results [(lit ''id'', PStr (lit ''7'')), (lit ''body'', PStr (replicate 100 120)),
                        (lit ''n'', PInt 7)] ! Suc 0 = lit ''id: 7\<newline>''
   \<and> format_dict_results [(lit ''id'', PStr (lit ''7'')), (lit ''body'', PStr (replicate 100 120)),
                        (lit ''n'', PInt 7)] ! Suc 1 = lit ''body: [Complex data]\<newline>''
   \<and> format_dict_results [(lit ''id'', PStr (lit ''7'')), (lit ''body'', PStr (replicate 100 120)),
                        (lit ''n'', PInt 7)] ! Suc 2 = lit ''n: [Complex data]\<newline>''"
  using dict_values_rendering
      [of 0 "[(lit ''id'', PStr (lit ''7'')), (lit ''body'', PStr (replicate 100 120)), (lit ''n'', PInt 7)]"
          "lit ''id''" "PStr (lit ''7'')"]
    dict_values_rendering
      [of 1 "[(lit ''id'', PStr (lit ''7'')), (lit ''body'', PStr (replicate 100 120)), (lit ''n'', PInt 7)]"
          "lit ''body''" "PStr (replicate 100 120)"]
    dict_values_rendering
      [of 2 "[(lit ''id'', PStr (lit ''7'')), (lit ''body'', PStr (replicate 100 120)), (lit ''n'', PInt 7)]"
          "lit ''n''" "PInt 7"]
  by (simp add: lit_def)

section \<open>Passwords\<close>

text \<open>
  Claim C5. When the user exists, \<open>update_user\<close> succeeds and the row stored has the
  password of the request, as it is, in \<open>password_hash\<close>: no hash is applied, while
  \<open>create_user\<close> stores \<open>bcrypt.hashpw\<close> of the password.
\<close>

theorem update_user_stores_plaintext_password:
  assumes "db user_id = Some old"
  shows "update_user user_id u db =
           Inr (db(user_id \<mapsto> old\<lparr>username := uc_username u, email := uc_email u,
                                   password_hash := uc_password u, role := uc_role u\<rparr>),
                old\<lparr>username := uc_username u, email := uc_email u,
                    password_hash := uc_password u, role := uc_role u\<rparr>)
         \<and> (\<forall>db' r. update_user user_id u db = Inr (db', r) \<longrightarrow>
               db' user_id = Some r \<and> password_hash r = uc_password u)
         \<and> (\<forall>db' r. create_user hashpw salt new_id u db = (db', r) \<longrightarrow>
               db' new_id = Some r \<and> password_hash r = hashpw (uc_password u) salt)"
  using assms by (auto simp: update_user_def create_user_def Let_def)

theorem update_user_witness:
  "update_user 1
     \<lparr>uc_username = lit ''ann'', uc_email = lit ''ann@example.org'', uc_password = lit ''hunter2'',
      uc_role = lit ''user''\<rparr>
     [1 \<mapsto> \<lparr>username = lit ''ann'', email = lit ''a@example.org'', password_hash = lit ''$2b$12$abc'',
             role = lit ''user''\<rparr>]
   = Inr ([1 \<mapsto> \<lparr>username = lit ''ann'', email = lit ''ann@example.org'',
                   password_hash = lit ''hunter2'', role = lit ''user''\<rparr>],
          \<lparr>username = lit ''ann'', email = lit ''ann@example.org'', password_hash = lit ''hunter2'',
           role = lit ''user''\<rparr>)"
proof -
  let ?old = "\<lparr>username = lit ''ann'', email = lit ''a@example.org'',
               password_hash = lit ''$2b$12$abc'', role = lit ''user''\<rparr>"
  let ?u = "\<lparr>uc_username = lit ''ann'', uc_email = lit ''ann@example.org'',
             uc_password = lit ''hunter2'', uc_role = lit ''user''\<rparr>"
  have h: "[1 \<mapsto> ?old] (1::nat) = Some ?old" by simp
  have "update_user 1 ?u [1 \<mapsto> ?old] =
          Inr ([1 \<mapsto> ?old](1 \<mapsto> ?old\<lparr>username := uc_username ?u, email := uc_email ?u,
                                   password_hash := uc_password ?u, role := uc_role ?u\<rparr>),
               ?old\<lparr>username := uc_username ?u, email := uc_email ?u,
                   password_hash := uc_password ?u, role := uc_role ?u\<rparr>)"
    using update_user_stores_plaintext_password [of "[1 \<mapsto> ?old]" 1 ?old ?u "(@)" "[]" 2, OF h]
    by (rule conjunct1)
  then show ?thesis by simp
qed

end
